theory Spec2Isabelle
  imports Main "HOL-Library.Word"
begin

section \<open>The runtime stub library of nbjit (src/runtime_stub.c)\<close>

text \<open>
  The translation unit holds eight file-scope function pointers, one initialisation
  function that assigns all eight, and eight stubs that call through them. The functions
  behind the pointers belong to the host runtime and are not part of the file: they are
  parameters of the model.
\<close>

subsection \<open>Values that cross the boundary\<close>

text \<open>
  \<open>void*\<close> and \<open>const char*\<close> are addresses that the stubs never dereference;
  \<open>int64_t\<close> is a 64-bit word (read as two's complement by \<open>sint\<close>); a
  \<open>double\<close> is carried as its 64-bit pattern, since no stub computes with it.
\<close>

datatype ptr = Ptr nat

type_synonym int64_t = "64 word"

datatype double = Double "64 word"

subsection \<open>The functions of the host runtime\<close>

text \<open>
  A function of the host runtime is a C function that returns to its caller: it takes
  its arguments and the state of the host (type \<open>'w\<close>: its heap, its dictionaries,
  or the call log of an instrumented stand-in) and gives back its result and the new
  state of the host. The eight signatures are those of lines 31 to 38 of the source.
  The eight statics are file-local: a host function cannot name them, and could change
  them only by calling \<open>nbjit_init_runtime\<close> itself. The host functions of
  these types do not call back into this file, they act on \<open>'w\<close> only; host
  functions that do call back are those of the subsection on re-entrant host functions.
\<close>

type_synonym 'w dict_new_fn = "'w \<Rightarrow> ptr \<times> 'w"
type_synonym 'w dict_getindex_fn = "ptr \<Rightarrow> ptr \<Rightarrow> 'w \<Rightarrow> ptr \<times> 'w"
type_synonym 'w dict_setindex_bang_fn = "ptr \<Rightarrow> ptr \<Rightarrow> ptr \<Rightarrow> 'w \<Rightarrow> 'w"
type_synonym 'w symbol_from_cstr_fn = "ptr \<Rightarrow> 'w \<Rightarrow> ptr \<times> 'w"
type_synonym 'w box_int64_fn = "int64_t \<Rightarrow> 'w \<Rightarrow> ptr \<times> 'w"
type_synonym 'w box_float64_fn = "double \<Rightarrow> 'w \<Rightarrow> ptr \<times> 'w"
type_synonym 'w unbox_int64_fn = "ptr \<Rightarrow> 'w \<Rightarrow> int64_t \<times> 'w"
type_synonym 'w unbox_float64_fn = "ptr \<Rightarrow> 'w \<Rightarrow> double \<times> 'w"

subsection \<open>The state: eight static function pointers and the host\<close>

text \<open>
  A function pointer is \<open>None\<close> when it is null (the \<open>0\<close> of the source) and
  \<open>Some f\<close> when it points to the function \<open>f\<close> of the slot's signature.
\<close>

record 'w process =
  fp_dict_new :: "'w dict_new_fn option"
  fp_dict_getindex :: "'w dict_getindex_fn option"
  fp_dict_setindex_bang :: "'w dict_setindex_bang_fn option"
  fp_symbol_from_cstr :: "'w symbol_from_cstr_fn option"
  fp_box_int64 :: "'w box_int64_fn option"
  fp_box_float64 :: "'w box_float64_fn option"
  fp_unbox_int64 :: "'w unbox_int64_fn option"
  fp_unbox_float64 :: "'w unbox_float64_fn option"
  host :: 'w

text \<open>The static initialisers of lines 31 to 38: every pointer is \<open>0\<close> at load.\<close>

definition initial_state :: "'w \<Rightarrow> 'w process" where
  "initial_state w =
     \<lparr>fp_dict_new = None, fp_dict_getindex = None, fp_dict_setindex_bang = None,
      fp_symbol_from_cstr = None, fp_box_int64 = None, fp_box_float64 = None,
      fp_unbox_int64 = None, fp_unbox_float64 = None, host = w\<rparr>"

subsection \<open>Ways a stub can fail to return\<close>

text \<open>
  The source contains no test of a pointer and no call to \<open>abort\<close>. The one failure
  it has is the one C gives to a call through a null function pointer: undefined
  behaviour, which nothing in the program detects (\<open>Null_Call\<close>).
  \<open>Uninitialized_Binding\<close> is the fault that a stub which tested its slot would
  raise; no stub of the source has such a branch, and the constructor is here so that a
  detected fault can be told from an undetected one.
\<close>

datatype fault = Null_Call | Uninitialized_Binding

subsection \<open>Initialisation (lines 41 to 59)\<close>

definition nbjit_init_runtime ::
  "'w dict_new_fn option \<Rightarrow> 'w dict_getindex_fn option \<Rightarrow> 'w dict_setindex_bang_fn option \<Rightarrow>
   'w symbol_from_cstr_fn option \<Rightarrow> 'w box_int64_fn option \<Rightarrow> 'w box_float64_fn option \<Rightarrow>
   'w unbox_int64_fn option \<Rightarrow> 'w unbox_float64_fn option \<Rightarrow> 'w process \<Rightarrow> 'w process" where
  "nbjit_init_runtime dict_new dict_getindex dict_setindex_bang symbol_from_cstr
       box_int64 box_float64 unbox_int64 unbox_float64 s =
     s\<lparr>fp_dict_new := dict_new,
       fp_dict_getindex := dict_getindex,
       fp_dict_setindex_bang := dict_setindex_bang,
       fp_symbol_from_cstr := symbol_from_cstr,
       fp_box_int64 := box_int64,
       fp_box_float64 := box_float64,
       fp_unbox_int64 := unbox_int64,
       fp_unbox_float64 := unbox_float64\<rparr>"

subsection \<open>The stubs (lines 62 to 92)\<close>

definition nbjit_dict_new :: "'w process \<Rightarrow> fault + (ptr \<times> 'w process)" where
  "nbjit_dict_new s =
     (case fp_dict_new s of
        None \<Rightarrow> Inl Null_Call
      | Some f \<Rightarrow> (case f (host s) of (r, w) \<Rightarrow> Inr (r, s\<lparr>host := w\<rparr>)))"

definition nbjit_dict_getindex :: "ptr \<Rightarrow> ptr \<Rightarrow> 'w process \<Rightarrow> fault + (ptr \<times> 'w process)" where
  "nbjit_dict_getindex dict key s =
     (case fp_dict_getindex s of
        None \<Rightarrow> Inl Null_Call
      | Some f \<Rightarrow> (case f dict key (host s) of (r, w) \<Rightarrow> Inr (r, s\<lparr>host := w\<rparr>)))"

definition nbjit_dict_setindex_bang :: "ptr \<Rightarrow> ptr \<Rightarrow> ptr \<Rightarrow> 'w process \<Rightarrow> fault + 'w process" where
  "nbjit_dict_setindex_bang dict val key s =
     (case fp_dict_setindex_bang s of
        None \<Rightarrow> Inl Null_Call
      | Some f \<Rightarrow> Inr (s\<lparr>host := f dict val key (host s)\<rparr>))"

definition nbjit_symbol_from_cstr :: "ptr \<Rightarrow> 'w process \<Rightarrow> fault + (ptr \<times> 'w process)" where
  "nbjit_symbol_from_cstr str s =
     (case fp_symbol_from_cstr s of
        None \<Rightarrow> Inl Null_Call
      | Some f \<Rightarrow> (case f str (host s) of (r, w) \<Rightarrow> Inr (r, s\<lparr>host := w\<rparr>)))"

definition nbjit_box_int64 :: "int64_t \<Rightarrow> 'w process \<Rightarrow> fault + (ptr \<times> 'w process)" where
  "nbjit_box_int64 val s =
     (case fp_box_int64 s of
        None \<Rightarrow> Inl Null_Call
      | Some f \<Rightarrow> (case f val (host s) of (r, w) \<Rightarrow> Inr (r, s\<lparr>host := w\<rparr>)))"

definition nbjit_box_float64 :: "double \<Rightarrow> 'w process \<Rightarrow> fault + (ptr \<times> 'w process)" where
  "nbjit_box_float64 val s =
     (case fp_box_float64 s of
        None \<Rightarrow> Inl Null_Call
      | Some f \<Rightarrow> (case f val (host s) of (r, w) \<Rightarrow> Inr (r, s\<lparr>host := w\<rparr>)))"

definition nbjit_unbox_int64 :: "ptr \<Rightarrow> 'w process \<Rightarrow> fault + (int64_t \<times> 'w process)" where
  "nbjit_unbox_int64 p s =
     (case fp_unbox_int64 s of
        None \<Rightarrow> Inl Null_Call
      | Some f \<Rightarrow> (case f p (host s) of (r, w) \<Rightarrow> Inr (r, s\<lparr>host := w\<rparr>)))"

definition nbjit_unbox_float64 :: "ptr \<Rightarrow> 'w process \<Rightarrow> fault + (double \<times> 'w process)" where
  "nbjit_unbox_float64 p s =
     (case fp_unbox_float64 s of
        None \<Rightarrow> Inl Null_Call
      | Some f \<Rightarrow> (case f p (host s) of (r, w) \<Rightarrow> Inr (r, s\<lparr>host := w\<rparr>)))"

subsection \<open>Predicates on the table\<close>

definition uninitialized :: "'w process \<Rightarrow> bool" where
  "uninitialized s \<longleftrightarrow>
     fp_dict_new s = None \<and> fp_dict_getindex s = None \<and> fp_dict_setindex_bang s = None \<and>
     fp_symbol_from_cstr s = None \<and> fp_box_int64 s = None \<and> fp_box_float64 s = None \<and>
     fp_unbox_int64 s = None \<and> fp_unbox_float64 s = None"

definition initialized :: "'w process \<Rightarrow> bool" where
  "initialized s \<longleftrightarrow>
     fp_dict_new s \<noteq> None \<and> fp_dict_getindex s \<noteq> None \<and> fp_dict_setindex_bang s \<noteq> None \<and>
     fp_symbol_from_cstr s \<noteq> None \<and> fp_box_int64 s \<noteq> None \<and> fp_box_float64 s \<noteq> None \<and>
     fp_unbox_int64 s \<noteq> None \<and> fp_unbox_float64 s \<noteq> None"

definition same_slots :: "'w process \<Rightarrow> 'w process \<Rightarrow> bool" where
  "same_slots s t \<longleftrightarrow>
     fp_dict_new t = fp_dict_new s \<and> fp_dict_getindex t = fp_dict_getindex s \<and>
     fp_dict_setindex_bang t = fp_dict_setindex_bang s \<and>
     fp_symbol_from_cstr t = fp_symbol_from_cstr s \<and> fp_box_int64 t = fp_box_int64 s \<and>
     fp_box_float64 t = fp_box_float64 s \<and> fp_unbox_int64 t = fp_unbox_int64 s \<and>
     fp_unbox_float64 t = fp_unbox_float64 s"

subsection \<open>Instrumented stand-ins for the host functions\<close>

text \<open>
  A stand-in appends the call it received, with its arguments, to a log (the state of
  the host is the log) and returns a result fixed beforehand.
\<close>

datatype call =
    Dict_new
  | Dict_getindex ptr ptr
  | Dict_setindex_bang ptr ptr ptr
  | Symbol_from_cstr ptr
  | Box_int64 int64_t
  | Box_float64 double
  | Unbox_int64 ptr
  | Unbox_float64 ptr

definition rec_dict_new :: "ptr \<Rightarrow> call list dict_new_fn" where
  "rec_dict_new r w = (r, w @ [Dict_new])"

definition rec_dict_getindex :: "ptr \<Rightarrow> call list dict_getindex_fn" where
  "rec_dict_getindex r dict key w = (r, w @ [Dict_getindex dict key])"

definition rec_dict_setindex_bang :: "call list dict_setindex_bang_fn" where
  "rec_dict_setindex_bang dict val key w = w @ [Dict_setindex_bang dict val key]"

definition rec_symbol_from_cstr :: "ptr \<Rightarrow> call list symbol_from_cstr_fn" where
  "rec_symbol_from_cstr r str w = (r, w @ [Symbol_from_cstr str])"

definition rec_box_int64 :: "ptr \<Rightarrow> call list box_int64_fn" where
  "rec_box_int64 r val w = (r, w @ [Box_int64 val])"

definition rec_box_float64 :: "ptr \<Rightarrow> call list box_float64_fn" where
  "rec_box_float64 r val w = (r, w @ [Box_float64 val])"

definition rec_unbox_int64 :: "int64_t \<Rightarrow> call list unbox_int64_fn" where
  "rec_unbox_int64 r p w = (r, w @ [Unbox_int64 p])"

definition rec_unbox_float64 :: "double \<Rightarrow> call list unbox_float64_fn" where
  "rec_unbox_float64 r p w = (r, w @ [Unbox_float64 p])"

text \<open>A table with all eight stand-ins installed, over an empty log.\<close>

definition standin_state :: "call list process" where
  "standin_state =
     nbjit_init_runtime (Some (rec_dict_new (Ptr 1))) (Some (rec_dict_getindex (Ptr 2)))
       (Some rec_dict_setindex_bang) (Some (rec_symbol_from_cstr (Ptr 4)))
       (Some (rec_box_int64 (Ptr 5))) (Some (rec_box_float64 (Ptr 6)))
       (Some (rec_unbox_int64 7)) (Some (rec_unbox_float64 (Double 8)))
       (initial_state [])"



text \<open>
  A table that holds only the two integer slots: the boxing stand-in, and an unboxing
  stand-in that returns \<open>r\<close>.
\<close>

definition int64_state :: "int64_t \<Rightarrow> call list process" where
  "int64_state r =
     nbjit_init_runtime None None None None (Some (rec_box_int64 (Ptr 5))) None
       (Some (rec_unbox_int64 r)) None (initial_state [])"

subsection \<open>Sequences of stub calls\<close>

text \<open>
  A client of the file calls the stubs one after the other. \<open>forward\<close> makes the one
  call that a \<open>call\<close> names and keeps the state that follows; \<open>forward_all\<close> makes
  a list of calls in order and stops at the first that does not return.
\<close>

fun forward :: "call \<Rightarrow> 'w process \<Rightarrow> fault + 'w process" where
  "forward Dict_new s = map_sum id snd (nbjit_dict_new s)"
| "forward (Dict_getindex dict key) s = map_sum id snd (nbjit_dict_getindex dict key s)"
| "forward (Dict_setindex_bang dict val key) s = nbjit_dict_setindex_bang dict val key s"
| "forward (Symbol_from_cstr str) s = map_sum id snd (nbjit_symbol_from_cstr str s)"
| "forward (Box_int64 val) s = map_sum id snd (nbjit_box_int64 val s)"
| "forward (Box_float64 val) s = map_sum id snd (nbjit_box_float64 val s)"
| "forward (Unbox_int64 p) s = map_sum id snd (nbjit_unbox_int64 p s)"
| "forward (Unbox_float64 p) s = map_sum id snd (nbjit_unbox_float64 p s)"

fun forward_all :: "call list \<Rightarrow> 'w process \<Rightarrow> fault + 'w process" where
  "forward_all [] s = Inr s"
| "forward_all (c # cs) s =
     (case forward c s of Inl e \<Rightarrow> Inl e | Inr t \<Rightarrow> forward_all cs t)"

subsection \<open>Re-entrant host functions\<close>

text \<open>
  \<open>nbjit_init_runtime\<close> has external linkage (line 41): a function of the host can
  call it while a stub is calling that function. To express this the slots hold
  addresses, as the \<open>void*\<close> parameters of \<open>nbjit_init_runtime\<close> do (\<open>Ptr 0\<close>
  is the null pointer); the functions of the host are found by their address in the
  host's code; and a host function acts on the whole machine, the eight slots and the
  state of the host. What such a function does to the slots is what it does in C by
  calling \<open>nbjit_init_runtime\<close>, the only code that assigns them.
\<close>

record 'w machine =
  at_dict_new :: ptr
  at_dict_getindex :: ptr
  at_dict_setindex_bang :: ptr
  at_symbol_from_cstr :: ptr
  at_box_int64 :: ptr
  at_box_float64 :: ptr
  at_unbox_int64 :: ptr
  at_unbox_float64 :: ptr
  world :: 'w

datatype 'w host_function =
    Fn_dict_new "'w machine \<Rightarrow> ptr \<times> 'w machine"
  | Fn_dict_getindex "ptr \<Rightarrow> ptr \<Rightarrow> 'w machine \<Rightarrow> ptr \<times> 'w machine"
  | Fn_dict_setindex_bang "ptr \<Rightarrow> ptr \<Rightarrow> ptr \<Rightarrow> 'w machine \<Rightarrow> 'w machine"
  | Fn_symbol_from_cstr "ptr \<Rightarrow> 'w machine \<Rightarrow> ptr \<times> 'w machine"
  | Fn_box_int64 "int64_t \<Rightarrow> 'w machine \<Rightarrow> ptr \<times> 'w machine"
  | Fn_box_float64 "double \<Rightarrow> 'w machine \<Rightarrow> ptr \<times> 'w machine"
  | Fn_unbox_int64 "ptr \<Rightarrow> 'w machine \<Rightarrow> int64_t \<times> 'w machine"
  | Fn_unbox_float64 "ptr \<Rightarrow> 'w machine \<Rightarrow> double \<times> 'w machine"

type_synonym 'w code = "ptr \<Rightarrow> 'w host_function option"

text \<open>
  A call through a pointer is undefined when the pointer is null, and when it does not
  point to a function of the type of the slot.
\<close>

datatype undefined_call = Call_of_null | Call_of_non_function

definition initial_machine :: "'w \<Rightarrow> 'w machine" where
  "initial_machine w =
     \<lparr>at_dict_new = Ptr 0, at_dict_getindex = Ptr 0, at_dict_setindex_bang = Ptr 0,
      at_symbol_from_cstr = Ptr 0, at_box_int64 = Ptr 0, at_box_float64 = Ptr 0,
      at_unbox_int64 = Ptr 0, at_unbox_float64 = Ptr 0, world = w\<rparr>"

definition nbjit_init_runtime_reent ::
  "ptr \<Rightarrow> ptr \<Rightarrow> ptr \<Rightarrow> ptr \<Rightarrow> ptr \<Rightarrow> ptr \<Rightarrow> ptr \<Rightarrow> ptr \<Rightarrow> 'w machine \<Rightarrow> 'w machine" where
  "nbjit_init_runtime_reent dict_new dict_getindex dict_setindex_bang symbol_from_cstr
       box_int64 box_float64 unbox_int64 unbox_float64 m =
     m\<lparr>at_dict_new := dict_new,
       at_dict_getindex := dict_getindex,
       at_dict_setindex_bang := dict_setindex_bang,
       at_symbol_from_cstr := symbol_from_cstr,
       at_box_int64 := box_int64,
       at_box_float64 := box_float64,
       at_unbox_int64 := unbox_int64,
       at_unbox_float64 := unbox_float64\<rparr>"

text \<open>
  The stubs: \<open>return fp(args);\<close> runs the function at the address in the slot on the
  machine as it is, and the machine afterwards is the one that function left.
\<close>

definition nbjit_dict_new_reent ::
  "'w code \<Rightarrow> 'w machine \<Rightarrow> undefined_call + (ptr \<times> 'w machine)" where
  "nbjit_dict_new_reent code m =
     (if at_dict_new m = Ptr 0 then Inl Call_of_null
      else case code (at_dict_new m) of
             Some (Fn_dict_new f) \<Rightarrow> Inr (f m)
           | _ \<Rightarrow> Inl Call_of_non_function)"

definition nbjit_dict_getindex_reent ::
  "'w code \<Rightarrow> ptr \<Rightarrow> ptr \<Rightarrow> 'w machine \<Rightarrow> undefined_call + (ptr \<times> 'w machine)" where
  "nbjit_dict_getindex_reent code dict key m =
     (if at_dict_getindex m = Ptr 0 then Inl Call_of_null
      else case code (at_dict_getindex m) of
             Some (Fn_dict_getindex f) \<Rightarrow> Inr (f dict key m)
           | _ \<Rightarrow> Inl Call_of_non_function)"

definition nbjit_dict_setindex_bang_reent ::
  "'w code \<Rightarrow> ptr \<Rightarrow> ptr \<Rightarrow> ptr \<Rightarrow> 'w machine \<Rightarrow> undefined_call + 'w machine" where
  "nbjit_dict_setindex_bang_reent code dict val key m =
     (if at_dict_setindex_bang m = Ptr 0 then Inl Call_of_null
      else case code (at_dict_setindex_bang m) of
             Some (Fn_dict_setindex_bang f) \<Rightarrow> Inr (f dict val key m)
           | _ \<Rightarrow> Inl Call_of_non_function)"

definition nbjit_symbol_from_cstr_reent ::
  "'w code \<Rightarrow> ptr \<Rightarrow> 'w machine \<Rightarrow> undefined_call + (ptr \<times> 'w machine)" where
  "nbjit_symbol_from_cstr_reent code str m =
     (if at_symbol_from_cstr m = Ptr 0 then Inl Call_of_null
      else case code (at_symbol_from_cstr m) of
             Some (Fn_symbol_from_cstr f) \<Rightarrow> Inr (f str m)
           | _ \<Rightarrow> Inl Call_of_non_function)"

definition nbjit_box_int64_reent ::
  "'w code \<Rightarrow> int64_t \<Rightarrow> 'w machine \<Rightarrow> undefined_call + (ptr \<times> 'w machine)" where
  "nbjit_box_int64_reent code val m =
     (if at_box_int64 m = Ptr 0 then Inl Call_of_null
      else case code (at_box_int64 m) of
             Some (Fn_box_int64 f) \<Rightarrow> Inr (f val m)
           | _ \<Rightarrow> Inl Call_of_non_function)"

definition nbjit_box_float64_reent ::
  "'w code \<Rightarrow> double \<Rightarrow> 'w machine \<Rightarrow> undefined_call + (ptr \<times> 'w machine)" where
  "nbjit_box_float64_reent code val m =
     (if at_box_float64 m = Ptr 0 then Inl Call_of_null
      else case code (at_box_float64 m) of
             Some (Fn_box_float64 f) \<Rightarrow> Inr (f val m)
           | _ \<Rightarrow> Inl Call_of_non_function)"

definition nbjit_unbox_int64_reent ::
  "'w code \<Rightarrow> ptr \<Rightarrow> 'w machine \<Rightarrow> undefined_call + (int64_t \<times> 'w machine)" where
  "nbjit_unbox_int64_reent code p m =
     (if at_unbox_int64 m = Ptr 0 then Inl Call_of_null
      else case code (at_unbox_int64 m) of
             Some (Fn_unbox_int64 f) \<Rightarrow> Inr (f p m)
           | _ \<Rightarrow> Inl Call_of_non_function)"

definition nbjit_unbox_float64_reent ::
  "'w code \<Rightarrow> ptr \<Rightarrow> 'w machine \<Rightarrow> undefined_call + (double \<times> 'w machine)" where
  "nbjit_unbox_float64_reent code p m =
     (if at_unbox_float64 m = Ptr 0 then Inl Call_of_null
      else case code (at_unbox_float64 m) of
             Some (Fn_unbox_float64 f) \<Rightarrow> Inr (f p m)
           | _ \<Rightarrow> Inl Call_of_non_function)"

definition same_addresses :: "'w machine \<Rightarrow> 'w machine \<Rightarrow> bool" where
  "same_addresses m t \<longleftrightarrow>
     at_dict_new t = at_dict_new m \<and> at_dict_getindex t = at_dict_getindex m \<and>
     at_dict_setindex_bang t = at_dict_setindex_bang m \<and>
     at_symbol_from_cstr t = at_symbol_from_cstr m \<and> at_box_int64 t = at_box_int64 m \<and>
     at_box_float64 t = at_box_float64 m \<and> at_unbox_int64 t = at_unbox_int64 m \<and>
     at_unbox_float64 t = at_unbox_float64 m"

text \<open>
  A host function that does not call back into this file acts on the state of the host
  only: \<open>plain\<close> and \<open>plain_void\<close> make a function of the machine out of it.
\<close>

definition plain :: "('w \<Rightarrow> 'r \<times> 'w) \<Rightarrow> 'w machine \<Rightarrow> 'r \<times> 'w machine" where
  "plain f m = (case f (world m) of (r, w) \<Rightarrow> (r, m\<lparr>world := w\<rparr>))"

definition plain_void :: "('w \<Rightarrow> 'w) \<Rightarrow> 'w machine \<Rightarrow> 'w machine" where
  "plain_void f m = m\<lparr>world := f (world m)\<rparr>"

text \<open>
  A stand-in for \<open>dict_new\<close> that logs its call, calls
  \<open>nbjit_init_runtime(0, 0, 0, 0, 0, 0, 0, 0)\<close> and returns the handle \<open>Ptr 1\<close>;
  the code of a host with the recording stand-ins at the addresses 100 to 107 and that
  function at the address 200; and two tables initialised from these addresses.
\<close>

definition resetting_dict_new :: "call list machine \<Rightarrow> ptr \<times> call list machine" where
  "resetting_dict_new m =
     (Ptr 1, nbjit_init_runtime_reent (Ptr 0) (Ptr 0) (Ptr 0) (Ptr 0) (Ptr 0) (Ptr 0) (Ptr 0)
               (Ptr 0) (m\<lparr>world := world m @ [Dict_new]\<rparr>))"

fun host_code :: "call list code" where
  "host_code (Ptr a) =
     (if a = 100 then Some (Fn_dict_new (plain (rec_dict_new (Ptr 1))))
      else if a = 101 then
        Some (Fn_dict_getindex (\<lambda>dict key. plain (rec_dict_getindex (Ptr 2) dict key)))
      else if a = 102 then
        Some (Fn_dict_setindex_bang
                (\<lambda>dict val key. plain_void (rec_dict_setindex_bang dict val key)))
      else if a = 103 then
        Some (Fn_symbol_from_cstr (\<lambda>str. plain (rec_symbol_from_cstr (Ptr 4) str)))
      else if a = 104 then Some (Fn_box_int64 (\<lambda>val. plain (rec_box_int64 (Ptr 5) val)))
      else if a = 105 then Some (Fn_box_float64 (\<lambda>val. plain (rec_box_float64 (Ptr 6) val)))
      else if a = 106 then Some (Fn_unbox_int64 (\<lambda>p. plain (rec_unbox_int64 7 p)))
      else if a = 107 then
        Some (Fn_unbox_float64 (\<lambda>p. plain (rec_unbox_float64 (Double 8) p)))
      else if a = 200 then Some (Fn_dict_new resetting_dict_new)
      else None)"

definition plain_machine :: "call list machine" where
  "plain_machine =
     nbjit_init_runtime_reent (Ptr 100) (Ptr 101) (Ptr 102) (Ptr 103) (Ptr 104) (Ptr 105)
       (Ptr 106) (Ptr 107) (initial_machine [])"

definition resetting_machine :: "call list machine" where
  "resetting_machine =
     nbjit_init_runtime_reent (Ptr 200) (Ptr 101) (Ptr 102) (Ptr 103) (Ptr 104) (Ptr 105)
       (Ptr 106) (Ptr 107) (initial_machine [])"

section \<open>Properties\<close>

lemmas stub_defs =
  nbjit_dict_new_def nbjit_dict_getindex_def nbjit_dict_setindex_bang_def
  nbjit_symbol_from_cstr_def nbjit_box_int64_def nbjit_box_float64_def
  nbjit_unbox_int64_def nbjit_unbox_float64_def

lemmas rec_defs =
  rec_dict_new_def rec_dict_getindex_def rec_dict_setindex_bang_def
  rec_symbol_from_cstr_def rec_box_int64_def rec_box_float64_def
  rec_unbox_int64_def rec_unbox_float64_def

lemma standin_state_slots:
  "fp_dict_new standin_state = Some (rec_dict_new (Ptr 1))"
  "fp_dict_getindex standin_state = Some (rec_dict_getindex (Ptr 2))"
  "fp_dict_setindex_bang standin_state = Some rec_dict_setindex_bang"
  "fp_symbol_from_cstr standin_state = Some (rec_symbol_from_cstr (Ptr 4))"
  "fp_box_int64 standin_state = Some (rec_box_int64 (Ptr 5))"
  "fp_box_float64 standin_state = Some (rec_box_float64 (Ptr 6))"
  "fp_unbox_int64 standin_state = Some (rec_unbox_int64 7)"
  "fp_unbox_float64 standin_state = Some (rec_unbox_float64 (Double 8))"
  "host standin_state = []"
  by (simp_all add: standin_state_def nbjit_init_runtime_def initial_state_def)

text \<open>
  Once every slot holds a function, any sequence of stub calls runs to its end and leaves
  the slots as they were.
\<close>

lemma same_slots_refl: "same_slots s s"
  by (simp add: same_slots_def)

lemma same_slots_trans: "same_slots s t \<Longrightarrow> same_slots t u \<Longrightarrow> same_slots s u"
  by (simp add: same_slots_def)

lemma same_slots_initialized: "same_slots s t \<Longrightarrow> initialized s \<Longrightarrow> initialized t"
  by (simp add: same_slots_def initialized_def)

lemma forward_initialized:
  assumes "initialized s"
  shows "\<exists>t. forward c s = Inr t \<and> same_slots s t"
proof (cases c)
  case Dict_new
  from assms obtain f where "fp_dict_new s = Some f"
    by (auto simp: initialized_def)
  then show ?thesis
    using Dict_new by (simp add: nbjit_dict_new_def same_slots_def case_prod_beta)
next
  case (Dict_getindex dict key)
  from assms obtain f where "fp_dict_getindex s = Some f"
    by (auto simp: initialized_def)
  then show ?thesis
    using Dict_getindex by (simp add: nbjit_dict_getindex_def same_slots_def case_prod_beta)
next
  case (Dict_setindex_bang dict val key)
  from assms obtain f where "fp_dict_setindex_bang s = Some f"
    by (auto simp: initialized_def)
  then show ?thesis
    using Dict_setindex_bang by (simp add: nbjit_dict_setindex_bang_def same_slots_def)
next
  case (Symbol_from_cstr str)
  from assms obtain f where "fp_symbol_from_cstr s = Some f"
    by (auto simp: initialized_def)
  then show ?thesis
    using Symbol_from_cstr
    by (simp add: nbjit_symbol_from_cstr_def same_slots_def case_prod_beta)
next
  case (Box_int64 val)
  from assms obtain f where "fp_box_int64 s = Some f"
    by (auto simp: initialized_def)
  then show ?thesis
    using Box_int64 by (simp add: nbjit_box_int64_def same_slots_def case_prod_beta)
next
  case (Box_float64 val)
  from assms obtain f where "fp_box_float64 s = Some f"
    by (auto simp: initialized_def)
  then show ?thesis
    using Box_float64 by (simp add: nbjit_box_float64_def same_slots_def case_prod_beta)
next
  case (Unbox_int64 p)
  from assms obtain f where "fp_unbox_int64 s = Some f"
    by (auto simp: initialized_def)
  then show ?thesis
    using Unbox_int64 by (simp add: nbjit_unbox_int64_def same_slots_def case_prod_beta)
next
  case (Unbox_float64 p)
  from assms obtain f where "fp_unbox_float64 s = Some f"
    by (auto simp: initialized_def)
  then show ?thesis
    using Unbox_float64 by (simp add: nbjit_unbox_float64_def same_slots_def case_prod_beta)
qed

lemma forward_all_initialized:
  "initialized s \<Longrightarrow> \<exists>t. forward_all cs s = Inr t \<and> same_slots s t"
proof (induction cs arbitrary: s)
  case Nil
  show ?case by (simp add: same_slots_refl)
next
  case (Cons c cs)
  from forward_initialized [OF Cons.prems] obtain t where
    t: "forward c s = Inr t" "same_slots s t" by blast
  from same_slots_initialized [OF t(2) Cons.prems] have "initialized t" .
  from Cons.IH [OF this] obtain u where
    u: "forward_all cs t = Inr u" "same_slots t u" by blast
  from t u show ?case
    by (auto intro: same_slots_trans)
qed

lemma init_functions_initialized:
  "initialized (nbjit_init_runtime (Some f0) (Some f1) (Some f2) (Some f3)
                  (Some f4) (Some f5) (Some f6) (Some f7) s)"
  by (simp add: initialized_def nbjit_init_runtime_def)

text \<open>
  Host functions that do not call back leave the addresses in the slots, and the stubs of
  the re-entrant model then do what the stubs above do.
\<close>

lemma plain_same_addresses: "same_addresses m (snd (plain f m))"
  by (simp add: plain_def same_addresses_def case_prod_beta)

lemma plain_void_same_addresses: "same_addresses m (plain_void f m)"
  by (simp add: plain_void_def same_addresses_def)

lemma plain_machine_slots:
  "at_dict_new plain_machine = Ptr 100"
  "at_dict_getindex plain_machine = Ptr 101"
  "at_dict_setindex_bang plain_machine = Ptr 102"
  "at_symbol_from_cstr plain_machine = Ptr 103"
  "at_box_int64 plain_machine = Ptr 104"
  "at_box_float64 plain_machine = Ptr 105"
  "at_unbox_int64 plain_machine = Ptr 106"
  "at_unbox_float64 plain_machine = Ptr 107"
  by (simp_all add: plain_machine_def nbjit_init_runtime_reent_def)

lemma reent_plain:
  "at_dict_new m \<noteq> Ptr 0 \<Longrightarrow> code (at_dict_new m) = Some (Fn_dict_new (plain g0)) \<Longrightarrow>
     nbjit_dict_new_reent code m =
       Inr (fst (g0 (world m)), m\<lparr>world := snd (g0 (world m))\<rparr>)"
  "at_dict_getindex m \<noteq> Ptr 0 \<Longrightarrow>
     code (at_dict_getindex m) = Some (Fn_dict_getindex (\<lambda>d k. plain (g1 d k))) \<Longrightarrow>
     nbjit_dict_getindex_reent code d1 k1 m =
       Inr (fst (g1 d1 k1 (world m)), m\<lparr>world := snd (g1 d1 k1 (world m))\<rparr>)"
  "at_dict_setindex_bang m \<noteq> Ptr 0 \<Longrightarrow>
     code (at_dict_setindex_bang m) =
       Some (Fn_dict_setindex_bang (\<lambda>d v k. plain_void (g2 d v k))) \<Longrightarrow>
     nbjit_dict_setindex_bang_reent code d2 v2 k2 m =
       Inr (m\<lparr>world := g2 d2 v2 k2 (world m)\<rparr>)"
  "at_symbol_from_cstr m \<noteq> Ptr 0 \<Longrightarrow>
     code (at_symbol_from_cstr m) = Some (Fn_symbol_from_cstr (\<lambda>p. plain (g3 p))) \<Longrightarrow>
     nbjit_symbol_from_cstr_reent code str m =
       Inr (fst (g3 str (world m)), m\<lparr>world := snd (g3 str (world m))\<rparr>)"
  "at_box_int64 m \<noteq> Ptr 0 \<Longrightarrow>
     code (at_box_int64 m) = Some (Fn_box_int64 (\<lambda>v. plain (g4 v))) \<Longrightarrow>
     nbjit_box_int64_reent code i m =
       Inr (fst (g4 i (world m)), m\<lparr>world := snd (g4 i (world m))\<rparr>)"
  "at_box_float64 m \<noteq> Ptr 0 \<Longrightarrow>
     code (at_box_float64 m) = Some (Fn_box_float64 (\<lambda>v. plain (g5 v))) \<Longrightarrow>
     nbjit_box_float64_reent code x m =
       Inr (fst (g5 x (world m)), m\<lparr>world := snd (g5 x (world m))\<rparr>)"
  "at_unbox_int64 m \<noteq> Ptr 0 \<Longrightarrow>
     code (at_unbox_int64 m) = Some (Fn_unbox_int64 (\<lambda>p. plain (g6 p))) \<Longrightarrow>
     nbjit_unbox_int64_reent code p6 m =
       Inr (fst (g6 p6 (world m)), m\<lparr>world := snd (g6 p6 (world m))\<rparr>)"
  "at_unbox_float64 m \<noteq> Ptr 0 \<Longrightarrow>
     code (at_unbox_float64 m) = Some (Fn_unbox_float64 (\<lambda>p. plain (g7 p))) \<Longrightarrow>
     nbjit_unbox_float64_reent code p7 m =
       Inr (fst (g7 p7 (world m)), m\<lparr>world := snd (g7 p7 (world m))\<rparr>)"
  by (simp_all add: nbjit_dict_new_reent_def nbjit_dict_getindex_reent_def
      nbjit_dict_setindex_bang_reent_def nbjit_symbol_from_cstr_reent_def
      nbjit_box_int64_reent_def nbjit_box_float64_reent_def nbjit_unbox_int64_reent_def
      nbjit_unbox_float64_reent_def plain_def plain_void_def case_prod_beta)

text \<open>
  C5. At load, before any call, every one of the eight function-pointer slots holds the
  null pointer: the table is empty.
\<close>

theorem initial_state_all_null:
  "fp_dict_new (initial_state w) = None \<and>
   fp_dict_getindex (initial_state w) = None \<and>
   fp_dict_setindex_bang (initial_state w) = None \<and>
   fp_symbol_from_cstr (initial_state w) = None \<and>
   fp_box_int64 (initial_state w) = None \<and>
   fp_box_float64 (initial_state w) = None \<and>
   fp_unbox_int64 (initial_state w) = None \<and>
   fp_unbox_float64 (initial_state w) = None \<and>
   uninitialized (initial_state w)"
  by (simp add: initial_state_def uninitialized_def)

text \<open>
  C4. One call of \<open>nbjit_init_runtime\<close> writes all eight slots: the state after the
  call is the table made of the eight arguments of that call, each in its own slot, and
  of the untouched host. Nothing of the table before the call remains.
\<close>

theorem nbjit_init_runtime_writes_all_slots:
  "nbjit_init_runtime a0 a1 a2 a3 a4 a5 a6 a7 s =
     \<lparr>fp_dict_new = a0, fp_dict_getindex = a1, fp_dict_setindex_bang = a2,
      fp_symbol_from_cstr = a3, fp_box_int64 = a4, fp_box_float64 = a5,
      fp_unbox_int64 = a6, fp_unbox_float64 = a7, host = host s\<rparr>"
  by (simp add: nbjit_init_runtime_def)

text \<open>
  C1. After \<open>nbjit_init_runtime\<close> has installed the functions \<open>f0\<close> to \<open>f7\<close>,
  each stub returns; its result is the result of the function of its own slot applied to
  the stub's arguments and to the host as it was, the host afterwards is the one that
  function left, and the table is as the initialisation left it.
\<close>

theorem forwarding_after_init:
  "(let t = nbjit_init_runtime (Some f0) (Some f1) (Some f2) (Some f3)
              (Some f4) (Some f5) (Some f6) (Some f7) s
    in nbjit_dict_new t = Inr (fst (f0 (host s)), t\<lparr>host := snd (f0 (host s))\<rparr>) \<and>
       nbjit_dict_getindex d1 k1 t =
         Inr (fst (f1 d1 k1 (host s)), t\<lparr>host := snd (f1 d1 k1 (host s))\<rparr>) \<and>
       nbjit_dict_setindex_bang d2 v2 k2 t = Inr (t\<lparr>host := f2 d2 v2 k2 (host s)\<rparr>) \<and>
       nbjit_symbol_from_cstr str t =
         Inr (fst (f3 str (host s)), t\<lparr>host := snd (f3 str (host s))\<rparr>) \<and>
       nbjit_box_int64 i t = Inr (fst (f4 i (host s)), t\<lparr>host := snd (f4 i (host s))\<rparr>) \<and>
       nbjit_box_float64 x t = Inr (fst (f5 x (host s)), t\<lparr>host := snd (f5 x (host s))\<rparr>) \<and>
       nbjit_unbox_int64 p6 t = Inr (fst (f6 p6 (host s)), t\<lparr>host := snd (f6 p6 (host s))\<rparr>) \<and>
       nbjit_unbox_float64 p7 t =
         Inr (fst (f7 p7 (host s)), t\<lparr>host := snd (f7 p7 (host s))\<rparr>))"
  by (simp add: Let_def stub_defs nbjit_init_runtime_def split: prod.split)

text \<open>
  With the recording stand-ins: \<open>nbjit_dict_new\<close> returns the handle of its stand-in
  and the log holds that one call; \<open>nbjit_dict_getindex\<close> returns the handle of its
  stand-in, which has received the two arguments in their order.
\<close>

theorem forwarding_after_init_witness:
  "nbjit_dict_new standin_state = Inr (Ptr 1, standin_state\<lparr>host := [Dict_new]\<rparr>) \<and>
   nbjit_dict_getindex (Ptr 1) (Ptr 11) standin_state =
     Inr (Ptr 2, standin_state\<lparr>host := [Dict_getindex (Ptr 1) (Ptr 11)]\<rparr>)"
  using forwarding_after_init [of "rec_dict_new (Ptr 1)" "rec_dict_getindex (Ptr 2)"
      rec_dict_setindex_bang "rec_symbol_from_cstr (Ptr 4)" "rec_box_int64 (Ptr 5)"
      "rec_box_float64 (Ptr 6)" "rec_unbox_int64 7" "rec_unbox_float64 (Double 8)"
      "initial_state []" "Ptr 1" "Ptr 11"]
  by (simp add: Let_def standin_state_def rec_defs initial_state_def)

text \<open>
  C2, as the code has it. In the initial state each of the eight stubs calls through a
  null pointer. No stub tests its slot, so what happens is the undefined behaviour of
  that call (\<open>Null_Call\<close>), for every argument list; it is not a normal return.
\<close>

theorem forwarding_before_init_is_null_call:
  "nbjit_dict_new (initial_state w) = Inl Null_Call \<and>
   nbjit_dict_getindex d1 k1 (initial_state w) = Inl Null_Call \<and>
   nbjit_dict_setindex_bang d2 v2 k2 (initial_state w) = Inl Null_Call \<and>
   nbjit_symbol_from_cstr str (initial_state w) = Inl Null_Call \<and>
   nbjit_box_int64 i (initial_state w) = Inl Null_Call \<and>
   nbjit_box_float64 x (initial_state w) = Inl Null_Call \<and>
   nbjit_unbox_int64 p6 (initial_state w) = Inl Null_Call \<and>
   nbjit_unbox_float64 p7 (initial_state w) = Inl Null_Call"
  by (simp add: stub_defs initial_state_def)

text \<open>
  C2, as stated, fails: \<open>nbjit_dict_new\<close> in the initial state does not raise the
  detected fault \<open>Uninitialized_Binding\<close>; it makes the undetected null call.
\<close>

theorem uninitialized_call_is_undetected:
  "nbjit_dict_new (initial_state ([] :: call list)) = Inl Null_Call \<and>
   nbjit_dict_new (initial_state ([] :: call list)) \<noteq> Inl Uninitialized_Binding"
  by (simp add: nbjit_dict_new_def initial_state_def)



text \<open>
  C6. \<open>nbjit_box_int64\<close> hands its 64-bit argument \<open>v\<close> to the function in the
  \<open>fp_box_int64\<close> slot as it is, for every word \<open>v\<close>, and returns that function's
  handle; \<open>nbjit_unbox_int64\<close> returns the 64-bit result of the function in the
  \<open>fp_unbox_int64\<close> slot as it is.
\<close>

theorem int64_forwarded_unchanged:
  "(fp_box_int64 s = Some g \<longrightarrow>
      nbjit_box_int64 v s = Inr (fst (g v (host s)), s\<lparr>host := snd (g v (host s))\<rparr>)) \<and>
   (fp_unbox_int64 s = Some h \<longrightarrow>
      nbjit_unbox_int64 p s = Inr (fst (h p (host s)), s\<lparr>host := snd (h p (host s))\<rparr>))"
  by (simp add: nbjit_box_int64_def nbjit_unbox_int64_def split: prod.split)

text \<open>
  At the least and the greatest signed value, at \<open>-1\<close> and at \<open>0\<close>: the recording
  stand-in has logged the very word it was called with, and the unboxing stub returns
  the very word its stand-in returned.
\<close>

theorem int64_forwarded_unchanged_witness:
  "nbjit_box_int64 (- 9223372036854775808) (int64_state 0) =
     Inr (Ptr 5, (int64_state 0)\<lparr>host := [Box_int64 (- 9223372036854775808)]\<rparr>) \<and>
   sint (- 9223372036854775808 :: int64_t) = - 9223372036854775808 \<and>
   nbjit_box_int64 (- 1) (int64_state 0) =
     Inr (Ptr 5, (int64_state 0)\<lparr>host := [Box_int64 (- 1)]\<rparr>) \<and>
   sint (- 1 :: int64_t) = - 1 \<and>
   nbjit_box_int64 0 (int64_state 0) =
     Inr (Ptr 5, (int64_state 0)\<lparr>host := [Box_int64 0]\<rparr>) \<and>
   nbjit_box_int64 9223372036854775807 (int64_state 0) =
     Inr (Ptr 5, (int64_state 0)\<lparr>host := [Box_int64 9223372036854775807]\<rparr>) \<and>
   sint (9223372036854775807 :: int64_t) = 9223372036854775807 \<and>
   nbjit_unbox_int64 (Ptr 9) (int64_state (- 9223372036854775808)) =
     Inr (- 9223372036854775808,
          (int64_state (- 9223372036854775808))\<lparr>host := [Unbox_int64 (Ptr 9)]\<rparr>) \<and>
   nbjit_unbox_int64 (Ptr 9) (int64_state 9223372036854775807) =
     Inr (9223372036854775807,
          (int64_state 9223372036854775807)\<lparr>host := [Unbox_int64 (Ptr 9)]\<rparr>)"
proof -
  have b: "fp_box_int64 (int64_state r) = Some (rec_box_int64 (Ptr 5))" for r
    by (simp add: int64_state_def nbjit_init_runtime_def)
  have u: "fp_unbox_int64 (int64_state r) = Some (rec_unbox_int64 r)" for r
    by (simp add: int64_state_def nbjit_init_runtime_def)
  have h: "host (int64_state r) = []" for r
    by (simp add: int64_state_def nbjit_init_runtime_def initial_state_def)
  note box = int64_forwarded_unchanged [THEN conjunct1, rule_format, OF b]
  note unbox = int64_forwarded_unchanged [THEN conjunct2, rule_format, OF u]
  show ?thesis
    by (simp add: box unbox h rec_box_int64_def rec_unbox_int64_def)
qed

text \<open>
  C7, as the code has it. The initial state is uninitialized. A call of
  \<open>nbjit_init_runtime\<close> whose eight arguments are all functions (none null) gives an
  initialized state, whatever the state before; so does every later call of that kind,
  and the stub calls made in between all return and leave the state initialized.
\<close>

theorem init_with_functions_gives_initialized:
  "uninitialized (initial_state w) \<and>
   initialized (nbjit_init_runtime (Some f0) (Some f1) (Some f2) (Some f3)
                  (Some f4) (Some f5) (Some f6) (Some f7) s) \<and>
   \<not> uninitialized (nbjit_init_runtime (Some f0) (Some f1) (Some f2) (Some f3)
                  (Some f4) (Some f5) (Some f6) (Some f7) s) \<and>
   initialized (nbjit_init_runtime (Some g0) (Some g1) (Some g2) (Some g3)
                  (Some g4) (Some g5) (Some g6) (Some g7)
                  (nbjit_init_runtime (Some f0) (Some f1) (Some f2) (Some f3)
                     (Some f4) (Some f5) (Some f6) (Some f7) s)) \<and>
   (\<exists>u. forward_all cs (nbjit_init_runtime (Some f0) (Some f1) (Some f2) (Some f3)
                            (Some f4) (Some f5) (Some f6) (Some f7) s) = Inr u \<and>
        initialized u)"
proof -
  let ?t = "nbjit_init_runtime (Some f0) (Some f1) (Some f2) (Some f3)
              (Some f4) (Some f5) (Some f6) (Some f7) s"
  have t: "initialized ?t"
    by (rule init_functions_initialized)
  from forward_all_initialized [OF t] obtain u where
    u: "forward_all cs ?t = Inr u" "same_slots ?t u" by blast
  from same_slots_initialized [OF u(2) t] u(1)
  have "\<exists>u. forward_all cs ?t = Inr u \<and> initialized u" by blast
  moreover have "uninitialized (initial_state w)"
    by (simp add: uninitialized_def initial_state_def)
  moreover have "\<not> uninitialized ?t"
    by (simp add: uninitialized_def nbjit_init_runtime_def)
  moreover have "initialized (nbjit_init_runtime (Some g0) (Some g1) (Some g2) (Some g3)
                  (Some g4) (Some g5) (Some g6) (Some g7) ?t)"
    by (rule init_functions_initialized)
  ultimately show ?thesis
    using t by blast
qed

text \<open>
  C7, as stated, fails: the arguments are stored as they come. On an initialized table,
  a call with eight null pointers gives the uninitialized state again, and a call with
  one function and seven null pointers gives a state that is neither.
\<close>

theorem init_with_nulls_is_uninitialized_again:
  "initialized standin_state \<and>
   uninitialized
     (nbjit_init_runtime None None None None None None None None standin_state) \<and>
   \<not> initialized
     (nbjit_init_runtime (Some (rec_dict_new (Ptr 1))) None None None None None None None
        standin_state) \<and>
   \<not> uninitialized
     (nbjit_init_runtime (Some (rec_dict_new (Ptr 1))) None None None None None None None
        standin_state)"
  by (simp add: initialized_def uninitialized_def nbjit_init_runtime_def standin_state_def)



text \<open>
  C9, as the code has it. A stub makes no write of its own to the table. For each of
  the eight stubs, in any state where its slot holds the address of a function of the
  slot's type, and where the run of that function leaves the eight slots as they are (as
  every function that does not call \<open>nbjit_init_runtime\<close> does), the stub returns
  and the eight slots afterwards are those from before the call.
\<close>

theorem forwarding_writes_no_slot:
  "(at_dict_new m \<noteq> Ptr 0 \<and> code (at_dict_new m) = Some (Fn_dict_new f0) \<and>
      same_addresses m (snd (f0 m)) \<longrightarrow>
      (\<exists>r t. nbjit_dict_new_reent code m = Inr (r, t) \<and> same_addresses m t)) \<and>
   (at_dict_getindex m \<noteq> Ptr 0 \<and> code (at_dict_getindex m) = Some (Fn_dict_getindex f1) \<and>
      same_addresses m (snd (f1 d1 k1 m)) \<longrightarrow>
      (\<exists>r t. nbjit_dict_getindex_reent code d1 k1 m = Inr (r, t) \<and> same_addresses m t)) \<and>
   (at_dict_setindex_bang m \<noteq> Ptr 0 \<and>
      code (at_dict_setindex_bang m) = Some (Fn_dict_setindex_bang f2) \<and>
      same_addresses m (f2 d2 v2 k2 m) \<longrightarrow>
      (\<exists>t. nbjit_dict_setindex_bang_reent code d2 v2 k2 m = Inr t \<and> same_addresses m t)) \<and>
   (at_symbol_from_cstr m \<noteq> Ptr 0 \<and>
      code (at_symbol_from_cstr m) = Some (Fn_symbol_from_cstr f3) \<and>
      same_addresses m (snd (f3 str m)) \<longrightarrow>
      (\<exists>r t. nbjit_symbol_from_cstr_reent code str m = Inr (r, t) \<and> same_addresses m t)) \<and>
   (at_box_int64 m \<noteq> Ptr 0 \<and> code (at_box_int64 m) = Some (Fn_box_int64 f4) \<and>
      same_addresses m (snd (f4 i m)) \<longrightarrow>
      (\<exists>r t. nbjit_box_int64_reent code i m = Inr (r, t) \<and> same_addresses m t)) \<and>
   (at_box_float64 m \<noteq> Ptr 0 \<and> code (at_box_float64 m) = Some (Fn_box_float64 f5) \<and>
      same_addresses m (snd (f5 x m)) \<longrightarrow>
      (\<exists>r t. nbjit_box_float64_reent code x m = Inr (r, t) \<and> same_addresses m t)) \<and>
   (at_unbox_int64 m \<noteq> Ptr 0 \<and> code (at_unbox_int64 m) = Some (Fn_unbox_int64 f6) \<and>
      same_addresses m (snd (f6 p6 m)) \<longrightarrow>
      (\<exists>r t. nbjit_unbox_int64_reent code p6 m = Inr (r, t) \<and> same_addresses m t)) \<and>
   (at_unbox_float64 m \<noteq> Ptr 0 \<and> code (at_unbox_float64 m) = Some (Fn_unbox_float64 f7) \<and>
      same_addresses m (snd (f7 p7 m)) \<longrightarrow>
      (\<exists>r t. nbjit_unbox_float64_reent code p7 m = Inr (r, t) \<and> same_addresses m t))"
proof (intro conjI impI)
  assume "at_dict_new m \<noteq> Ptr 0 \<and> code (at_dict_new m) = Some (Fn_dict_new f0) \<and>
    same_addresses m (snd (f0 m))"
  then have "nbjit_dict_new_reent code m = Inr (fst (f0 m), snd (f0 m))"
    and "same_addresses m (snd (f0 m))"
    by (simp_all add: nbjit_dict_new_reent_def)
  then show "\<exists>r t. nbjit_dict_new_reent code m = Inr (r, t) \<and> same_addresses m t"
    by blast
next
  assume "at_dict_getindex m \<noteq> Ptr 0 \<and> code (at_dict_getindex m) = Some (Fn_dict_getindex f1) \<and>
    same_addresses m (snd (f1 d1 k1 m))"
  then have "nbjit_dict_getindex_reent code d1 k1 m = Inr (fst (f1 d1 k1 m), snd (f1 d1 k1 m))"
    and "same_addresses m (snd (f1 d1 k1 m))"
    by (simp_all add: nbjit_dict_getindex_reent_def)
  then show "\<exists>r t. nbjit_dict_getindex_reent code d1 k1 m = Inr (r, t) \<and> same_addresses m t"
    by blast
next
  assume "at_dict_setindex_bang m \<noteq> Ptr 0 \<and>
    code (at_dict_setindex_bang m) = Some (Fn_dict_setindex_bang f2) \<and>
    same_addresses m (f2 d2 v2 k2 m)"
  then show "\<exists>t. nbjit_dict_setindex_bang_reent code d2 v2 k2 m = Inr t \<and> same_addresses m t"
    by (simp add: nbjit_dict_setindex_bang_reent_def)
next
  assume "at_symbol_from_cstr m \<noteq> Ptr 0 \<and>
    code (at_symbol_from_cstr m) = Some (Fn_symbol_from_cstr f3) \<and>
    same_addresses m (snd (f3 str m))"
  then have "nbjit_symbol_from_cstr_reent code str m = Inr (fst (f3 str m), snd (f3 str m))"
    and "same_addresses m (snd (f3 str m))"
    by (simp_all add: nbjit_symbol_from_cstr_reent_def)
  then show "\<exists>r t. nbjit_symbol_from_cstr_reent code str m = Inr (r, t) \<and> same_addresses m t"
    by blast
next
  assume "at_box_int64 m \<noteq> Ptr 0 \<and> code (at_box_int64 m) = Some (Fn_box_int64 f4) \<and>
    same_addresses m (snd (f4 i m))"
  then have "nbjit_box_int64_reent code i m = Inr (fst (f4 i m), snd (f4 i m))"
    and "same_addresses m (snd (f4 i m))"
    by (simp_all add: nbjit_box_int64_reent_def)
  then show "\<exists>r t. nbjit_box_int64_reent code i m = Inr (r, t) \<and> same_addresses m t"
    by blast
next
  assume "at_box_float64 m \<noteq> Ptr 0 \<and> code (at_box_float64 m) = Some (Fn_box_float64 f5) \<and>
    same_addresses m (snd (f5 x m))"
  then have "nbjit_box_float64_reent code x m = Inr (fst (f5 x m), snd (f5 x m))"
    and "same_addresses m (snd (f5 x m))"
    by (simp_all add: nbjit_box_float64_reent_def)
  then show "\<exists>r t. nbjit_box_float64_reent code x m = Inr (r, t) \<and> same_addresses m t"
    by blast
next
  assume "at_unbox_int64 m \<noteq> Ptr 0 \<and> code (at_unbox_int64 m) = Some (Fn_unbox_int64 f6) \<and>
    same_addresses m (snd (f6 p6 m))"
  then have "nbjit_unbox_int64_reent code p6 m = Inr (fst (f6 p6 m), snd (f6 p6 m))"
    and "same_addresses m (snd (f6 p6 m))"
    by (simp_all add: nbjit_unbox_int64_reent_def)
  then show "\<exists>r t. nbjit_unbox_int64_reent code p6 m = Inr (r, t) \<and> same_addresses m t"
    by blast
next
  assume "at_unbox_float64 m \<noteq> Ptr 0 \<and> code (at_unbox_float64 m) = Some (Fn_unbox_float64 f7) \<and>
    same_addresses m (snd (f7 p7 m))"
  then have "nbjit_unbox_float64_reent code p7 m = Inr (fst (f7 p7 m), snd (f7 p7 m))"
    and "same_addresses m (snd (f7 p7 m))"
    by (simp_all add: nbjit_unbox_float64_reent_def)
  then show "\<exists>r t. nbjit_unbox_float64_reent code p7 m = Inr (r, t) \<and> same_addresses m t"
    by blast
qed

text \<open>
  On the table of the recording stand-ins, which do not call back, every one of the
  eight stubs leaves the slots alone.
\<close>

theorem forwarding_writes_no_slot_witness:
  "(\<exists>r t. nbjit_dict_new_reent host_code plain_machine = Inr (r, t) \<and>
      same_addresses plain_machine t) \<and>
   (\<exists>r t. nbjit_dict_getindex_reent host_code (Ptr 1) (Ptr 11) plain_machine = Inr (r, t) \<and>
      same_addresses plain_machine t) \<and>
   (\<exists>t. nbjit_dict_setindex_bang_reent host_code (Ptr 1) (Ptr 12) (Ptr 11) plain_machine =
      Inr t \<and> same_addresses plain_machine t) \<and>
   (\<exists>r t. nbjit_symbol_from_cstr_reent host_code (Ptr 13) plain_machine = Inr (r, t) \<and>
      same_addresses plain_machine t) \<and>
   (\<exists>r t. nbjit_box_int64_reent host_code 42 plain_machine = Inr (r, t) \<and>
      same_addresses plain_machine t) \<and>
   (\<exists>r t. nbjit_box_float64_reent host_code (Double 43) plain_machine = Inr (r, t) \<and>
      same_addresses plain_machine t) \<and>
   (\<exists>r t. nbjit_unbox_int64_reent host_code (Ptr 5) plain_machine = Inr (r, t) \<and>
      same_addresses plain_machine t) \<and>
   (\<exists>r t. nbjit_unbox_float64_reent host_code (Ptr 6) plain_machine = Inr (r, t) \<and>
      same_addresses plain_machine t)"
  using forwarding_writes_no_slot [where m = plain_machine and code = host_code
      and ?f0.0 = "plain (rec_dict_new (Ptr 1))"
      and ?f1.0 = "\<lambda>dict key. plain (rec_dict_getindex (Ptr 2) dict key)"
      and ?d1.0 = "Ptr 1" and ?k1.0 = "Ptr 11"
      and ?f2.0 = "\<lambda>dict val key. plain_void (rec_dict_setindex_bang dict val key)"
      and ?d2.0 = "Ptr 1" and ?v2.0 = "Ptr 12" and ?k2.0 = "Ptr 11"
      and ?f3.0 = "\<lambda>str. plain (rec_symbol_from_cstr (Ptr 4) str)" and str = "Ptr 13"
      and ?f4.0 = "\<lambda>val. plain (rec_box_int64 (Ptr 5) val)" and i = 42
      and ?f5.0 = "\<lambda>val. plain (rec_box_float64 (Ptr 6) val)" and x = "Double 43"
      and ?f6.0 = "\<lambda>p. plain (rec_unbox_int64 7 p)" and ?p6.0 = "Ptr 5"
      and ?f7.0 = "\<lambda>p. plain (rec_unbox_float64 (Double 8) p)" and ?p7.0 = "Ptr 6"]
  by (simp only: plain_machine_slots host_code.simps plain_same_addresses
      plain_void_same_addresses simp_thms ptr.inject) simp

text \<open>
  C9, as stated, fails: the slot of \<open>nbjit_dict_new\<close> is populated with a function
  that calls \<open>nbjit_init_runtime\<close> with eight null pointers; the stub returns that
  function's handle, and all eight slots are null afterwards.
\<close>

theorem slot_function_calling_init_changes_slots:
  "at_dict_new resetting_machine = Ptr 200 \<and>
   host_code (Ptr 200) = Some (Fn_dict_new resetting_dict_new) \<and>
   nbjit_dict_new_reent host_code resetting_machine = Inr (Ptr 1, initial_machine [Dict_new]) \<and>
   at_dict_new (initial_machine [Dict_new]) = Ptr 0 \<and>
   \<not> same_addresses resetting_machine (initial_machine [Dict_new])"
  by (simp add: resetting_machine_def nbjit_init_runtime_reent_def initial_machine_def
      nbjit_dict_new_reent_def resetting_dict_new_def same_addresses_def)

text \<open>
  C10. \<open>nbjit_init_runtime\<close> stores each of its eight arguments in its slot as it
  comes, null or not. After a call that passes null for a slot, the stub of that slot
  does what it does in the initial state: the call through a null pointer.
\<close>

theorem init_stores_arguments_unvalidated:
  "fp_dict_new (nbjit_init_runtime a0 a1 a2 a3 a4 a5 a6 a7 s) = a0 \<and>
   fp_dict_getindex (nbjit_init_runtime a0 a1 a2 a3 a4 a5 a6 a7 s) = a1 \<and>
   fp_dict_setindex_bang (nbjit_init_runtime a0 a1 a2 a3 a4 a5 a6 a7 s) = a2 \<and>
   fp_symbol_from_cstr (nbjit_init_runtime a0 a1 a2 a3 a4 a5 a6 a7 s) = a3 \<and>
   fp_box_int64 (nbjit_init_runtime a0 a1 a2 a3 a4 a5 a6 a7 s) = a4 \<and>
   fp_box_float64 (nbjit_init_runtime a0 a1 a2 a3 a4 a5 a6 a7 s) = a5 \<and>
   fp_unbox_int64 (nbjit_init_runtime a0 a1 a2 a3 a4 a5 a6 a7 s) = a6 \<and>
   fp_unbox_float64 (nbjit_init_runtime a0 a1 a2 a3 a4 a5 a6 a7 s) = a7 \<and>
   nbjit_dict_new (nbjit_init_runtime None a1 a2 a3 a4 a5 a6 a7 s) =
     nbjit_dict_new (initial_state w) \<and>
   nbjit_dict_getindex d1 k1 (nbjit_init_runtime a0 None a2 a3 a4 a5 a6 a7 s) =
     nbjit_dict_getindex d1 k1 (initial_state w) \<and>
   nbjit_dict_setindex_bang d2 v2 k2 (nbjit_init_runtime a0 a1 None a3 a4 a5 a6 a7 s) =
     nbjit_dict_setindex_bang d2 v2 k2 (initial_state w) \<and>
   nbjit_symbol_from_cstr str (nbjit_init_runtime a0 a1 a2 None a4 a5 a6 a7 s) =
     nbjit_symbol_from_cstr str (initial_state w) \<and>
   nbjit_box_int64 i (nbjit_init_runtime a0 a1 a2 a3 None a5 a6 a7 s) =
     nbjit_box_int64 i (initial_state w) \<and>
   nbjit_box_float64 x (nbjit_init_runtime a0 a1 a2 a3 a4 None a6 a7 s) =
     nbjit_box_float64 x (initial_state w) \<and>
   nbjit_unbox_int64 p6 (nbjit_init_runtime a0 a1 a2 a3 a4 a5 None a7 s) =
     nbjit_unbox_int64 p6 (initial_state w) \<and>
   nbjit_unbox_float64 p7 (nbjit_init_runtime a0 a1 a2 a3 a4 a5 a6 None s) =
     nbjit_unbox_float64 p7 (initial_state w) \<and>
   nbjit_dict_new (nbjit_init_runtime None a1 a2 a3 a4 a5 a6 a7 s) = Inl Null_Call"
  by (simp add: stub_defs nbjit_init_runtime_def initial_state_def)

text \<open>
  On the table of stand-ins, re-initialised with null for every slot but
  \<open>fp_dict_getindex\<close>: the first slot is null, the second holds its function, and
  \<open>nbjit_dict_new\<close> is a null call.
\<close>

theorem init_stores_arguments_unvalidated_witness:
  "fp_dict_new
     (nbjit_init_runtime None (Some (rec_dict_getindex (Ptr 2))) None None None None None None
        standin_state) = None \<and>
   fp_dict_getindex
     (nbjit_init_runtime None (Some (rec_dict_getindex (Ptr 2))) None None None None None None
        standin_state) = Some (rec_dict_getindex (Ptr 2)) \<and>
   nbjit_dict_new
     (nbjit_init_runtime None (Some (rec_dict_getindex (Ptr 2))) None None None None None None
        standin_state) = Inl Null_Call"
  using init_stores_arguments_unvalidated [of None "Some (rec_dict_getindex (Ptr 2))"
      None None None None None None standin_state]
  by simp

end
